theory Spec2Isabelle
  imports Complex_Main
begin

section \<open>Numbers\<close>

text \<open>
  Every timing value of the application (\<open>start\<close>, \<open>end\<close>, the playback position) is a
  JavaScript number. Timing values come from a JSON document and from the media element, so
  they are finite; they are modelled as \<^typ>\<open>real\<close>. Rounding and the sign of zero are
  not modelled. The one operation of the code that can leave the finite numbers is the
  division in the progress computations; its result is a \<open>number\<close>, with the non-finite
  results of IEEE division written out.
\<close>

datatype number = Num real | PosInfinity | NegInfinity | NaN

definition js_div :: "real \<Rightarrow> real \<Rightarrow> number" where
  "js_div a b =
     (if b \<noteq> 0 then Num (a / b)
      else if a = 0 then NaN
      else if a > 0 then PosInfinity
      else NegInfinity)"

fun js_times :: "number \<Rightarrow> real \<Rightarrow> number" where
  "js_times (Num a) c = Num (a * c)"
| "js_times PosInfinity c = (if c > 0 then PosInfinity else if c < 0 then NegInfinity else NaN)"
| "js_times NegInfinity c = (if c > 0 then NegInfinity else if c < 0 then PosInfinity else NaN)"
| "js_times NaN c = NaN"

fun Math_max :: "real \<Rightarrow> number \<Rightarrow> number" where
  "Math_max a (Num b) = Num (max a b)"
| "Math_max a PosInfinity = PosInfinity"
| "Math_max a NegInfinity = Num a"
| "Math_max a NaN = NaN"

fun Math_min :: "real \<Rightarrow> number \<Rightarrow> number" where
  "Math_min a (Num b) = Num (min a b)"
| "Math_min a PosInfinity = Num a"
| "Math_min a NegInfinity = NegInfinity"
| "Math_min a NaN = NaN"

section \<open>Timed lyric data\<close>

text \<open>
  \<open>Syllable\<close>, \<open>Word\<close> and \<open>Segment\<close> of \<open>LyricsDisplay.tsx\<close>. A word and a segment
  carry the three fields of a syllable and more, so they extend its record. The components
  \<open>ProgressBar\<close> and \<open>WordTimingDisplay\<close> declare interfaces with fewer fields and are
  handed the same objects. The fields \<open>text\<close>, \<open>end\<close> and \<open>id\<close> are written with a prime.
\<close>

record Syllable =
  text' :: string
  start :: real
  end' :: real

record Translation =
  literal :: string
  contextual :: "string option"

record Word = Syllable +
  confidence :: real
  syllables :: "Syllable list"
  translation :: "Translation option"

record Segment = Syllable +
  id' :: string
  words :: "Word list"

record Metadata =
  meta_title :: string
  artists :: "string list"
  meta_duration :: real
  meta_language :: string
  alignment_method :: string
  alignment_quality :: real

record LyricsDocument =
  metadata :: Metadata
  segments :: "Segment list"

section \<open>Temporal activation\<close>

text \<open>\<open>Array.prototype.find\<close>: the first element that satisfies the predicate, else \<open>undefined\<close>.\<close>

primrec array_find :: "('a \<Rightarrow> bool) \<Rightarrow> 'a list \<Rightarrow> 'a option" where
  "array_find p [] = None"
| "array_find p (x # xs) = (if p x then Some x else array_find p xs)"

text \<open>\<open>ProgressBar.tsx\<close>, \<open>getCurrentSegment\<close>; the props \<open>segments\<close> and \<open>currentTime\<close> are arguments.\<close>

definition getCurrentSegment :: "Segment list \<Rightarrow> real \<Rightarrow> Segment option" where
  "getCurrentSegment segs currentTime =
     array_find (\<lambda>segment. currentTime \<ge> start segment \<and> currentTime \<le> end' segment) segs"

text \<open>\<open>LyricsDisplay.tsx\<close>: the three activation predicates.\<close>

definition isWordActive :: "real \<Rightarrow> Word \<Rightarrow> bool" where
  "isWordActive currentTime word \<longleftrightarrow> currentTime \<ge> start word \<and> currentTime \<le> end' word"

definition isSyllableActive :: "real \<Rightarrow> Syllable \<Rightarrow> bool" where
  "isSyllableActive currentTime syllable \<longleftrightarrow>
     currentTime \<ge> start syllable \<and> currentTime \<le> end' syllable"

definition isSegmentActive :: "real \<Rightarrow> Segment \<Rightarrow> bool" where
  "isSegmentActive currentTime segment \<longleftrightarrow>
     currentTime \<ge> start segment \<and> currentTime \<le> end' segment"

section \<open>Word timing display\<close>

text \<open>
  \<open>WordTimingDisplay.tsx\<close>: \<open>getWordProgress\<close> and \<open>getSegmentProgress\<close> return a
  percentage. The division is reached only when neither early return fires.
\<close>

definition getWordProgress :: "real \<Rightarrow> Word \<Rightarrow> number" where
  "getWordProgress currentTime word =
     (if currentTime < start word then Num 0
      else if currentTime > end' word then Num 100
      else
        let duration = end' word - start word;
            elapsed = currentTime - start word
        in Math_min 100 (Math_max 0 (js_times (js_div elapsed duration) 100)))"

definition getSegmentProgress :: "real \<Rightarrow> Segment \<Rightarrow> number" where
  "getSegmentProgress currentTime segment =
     (if currentTime < start segment then Num 0
      else if currentTime > end' segment then Num 100
      else
        let duration = end' segment - start segment;
            elapsed = currentTime - start segment
        in Math_min 100 (Math_max 0 (js_times (js_div elapsed duration) 100)))"

text \<open>
  What the component renders: nothing (\<open>null\<close>) for a segment that is not active, else the
  segment's progress and, for each word, its progress, its \<open>active\<close> flag and the time a
  click on it seeks to.
\<close>

record WordTimingItem =
  item_text :: string
  item_progress :: number
  item_active :: bool
  item_seek :: real

record WordTimingView =
  segment_progress :: number
  items :: "WordTimingItem list"

definition WordTimingDisplay :: "Segment \<Rightarrow> real \<Rightarrow> WordTimingView option" where
  "WordTimingDisplay segment currentTime =
     (let isSegmentActive = currentTime \<ge> start segment \<and> currentTime \<le> end' segment
      in if \<not> isSegmentActive then None
         else Some \<lparr>segment_progress = getSegmentProgress currentTime segment,
                    items = map (\<lambda>word.
                      \<lparr>item_text = text' word,
                       item_progress = getWordProgress currentTime word,
                       item_active = (currentTime \<ge> start word \<and> currentTime \<le> end' word),
                       item_seek = start word\<rparr>) (words segment)\<rparr>)"

section \<open>Lyrics rendering\<close>

text \<open>
  The React elements that \<open>LyricsDisplay.tsx\<close> builds, reduced to what the properties below read:
  a text node, or a \<open>span\<close> with its class name, the time its click handler seeks to
  (if it has one) and its children.
\<close>

datatype Element = TextNode string | Span string "real option" "Element list"

fun displayedText :: "Element \<Rightarrow> string" where
  "displayedText (TextNode s) = s"
| "displayedText (Span className onClick children) = concat (map displayedText children)"

text \<open>
  \<open>showTranslations && word.translation && (<span className="translation">...)\<close>,
  the suffix that the three views share.
\<close>

definition translationSuffix :: "bool \<Rightarrow> Word \<Rightarrow> Element list" where
  "translationSuffix showTranslations word =
     (if showTranslations then
        (case translation word of
           None \<Rightarrow> []
         | Some tr \<Rightarrow> [Span ''translation'' None [TextNode ''('', TextNode (literal tr), TextNode '')'']])
      else [])"

text \<open>
  The three views of a word. \<open>renderSyllable\<close> is the callback that
  \<open>renderSyllableView\<close> maps over \<open>word.syllables\<close>, with the index of the syllable.
\<close>

definition renderSyllable :: "real \<Rightarrow> Word \<Rightarrow> nat \<times> Syllable \<Rightarrow> Element" where
  "renderSyllable currentTime word = (\<lambda>(index, syllable).
     Span (''syllable '' @ (if isSyllableActive currentTime syllable then ''syllable-active'' else ''''))
       None
       (TextNode (text' syllable) #
         (if int index < int (length (syllables word)) - 1 then [TextNode ''-''] else [])))"

definition renderSyllableView :: "real \<Rightarrow> bool \<Rightarrow> Word \<Rightarrow> Element" where
  "renderSyllableView currentTime showTranslations word =
     Span (''word '' @ (if isWordActive currentTime word then ''active'' else ''''))
       (Some (start word))
       (map (renderSyllable currentTime word) (enumerate 0 (syllables word))
        @ translationSuffix showTranslations word)"

definition renderKaraokeView :: "real \<Rightarrow> bool \<Rightarrow> Word \<Rightarrow> Element" where
  "renderKaraokeView currentTime showTranslations word =
     Span (''word '' @ (if isWordActive currentTime word then ''karaoke-active'' else ''''))
       (Some (start word))
       (TextNode (text' word) # translationSuffix showTranslations word)"

definition renderSimpleView :: "bool \<Rightarrow> Word \<Rightarrow> Element" where
  "renderSimpleView showTranslations word =
     Span ''word'' (Some (start word))
       (TextNode (text' word) # translationSuffix showTranslations word)"

section \<open>Audio player and application state\<close>

text \<open>
  The media element as far as the handlers write it, the state of the \<open>AudioPlayer\<close>
  component, and the state of \<open>App\<close>. \<open>audioRef.current\<close> and \<open>audioPlayerRef.current\<close>
  are \<open>null\<close> until the component is mounted. A \<open>setState\<close> call is modelled as an
  assignment: the state returned by a handler is the state of the next render.
\<close>

record HTMLAudioElement =
  audio_currentTime :: real
  audio_playbackRate :: real
  audio_preservesPitch :: bool

record AudioPlayer =
  audioRef :: "HTMLAudioElement option"
  isPlaying :: bool
  player_currentTime :: real
  player_duration :: real
  playbackSpeed :: int

datatype ViewMode = karaoke | syllables_mode | simple

datatype Tab = lyrics_tab | downloads_tab | manage_tab

record App =
  app_currentTime :: real
  app_duration :: real
  viewMode :: ViewMode
  showTranslations :: bool
  lyricsData :: LyricsDocument
  activeTab :: Tab
  audioPlayerRef :: "AudioPlayer option"

text \<open>\<open>AudioPlayer.tsx\<close>, \<open>seekToTime\<close>.\<close>

definition seekToTime :: "real \<Rightarrow> AudioPlayer \<Rightarrow> AudioPlayer" where
  "seekToTime time p =
     (case audioRef p of
        None \<Rightarrow> p
      | Some audio \<Rightarrow>
          p\<lparr>audioRef := Some (audio\<lparr>audio_currentTime := time\<rparr>), player_currentTime := time\<rparr>)"

text \<open>
  The setter of \<open>playbackRate\<close> of a media element: it throws \<open>NotSupportedError\<close> when
  the user agent does not support the rate, and sets the rate otherwise. Which rates a user
  agent supports is its own matter: the predicate \<open>supports\<close> is an argument.
\<close>

datatype DOMException = NotSupportedError

definition set_playbackRate ::
  "(real \<Rightarrow> bool) \<Rightarrow> real \<Rightarrow> HTMLAudioElement \<Rightarrow> DOMException + HTMLAudioElement"
where
  "set_playbackRate supports rate audio =
     (if supports rate then Inr (audio\<lparr>audio_playbackRate := rate\<rparr>)
      else Inl NotSupportedError)"

text \<open>
  \<open>AudioPlayer.tsx\<close>, \<open>handleSpeedChange\<close>. The argument \<open>speed\<close> is the integer that
  \<open>parseInt(e.target.value)\<close> returned. The result is the exception that left the
  handler, if any, and the state: \<open>setPlaybackSpeed\<close> is called before the assignment to
  \<open>audio.playbackRate\<close>, and \<open>preservesPitch\<close> is assigned only if that assignment did
  not throw. The options of the \<open>select\<close> that fires the handler are \<open>speedOptions\<close>.
\<close>

definition handleSpeedChange ::
  "(real \<Rightarrow> bool) \<Rightarrow> int \<Rightarrow> AudioPlayer \<Rightarrow> DOMException option \<times> AudioPlayer"
where
  "handleSpeedChange supports speed p =
     (case audioRef p of
        None \<Rightarrow> (None, p)
      | Some audio \<Rightarrow>
          (let p1 = p\<lparr>playbackSpeed := speed\<rparr>
           in case set_playbackRate supports (real_of_int speed / 100) audio of
                Inl e \<Rightarrow> (Some e, p1)
              | Inr audio1 \<Rightarrow>
                  (None, p1\<lparr>audioRef := Some (audio1\<lparr>audio_preservesPitch := True\<rparr>)\<rparr>)))"

definition speedOptions :: "int list" where
  "speedOptions = [50, 60, 70, 80, 90, 100]"

text \<open>\<open>App.tsx\<close>: \<open>handleTimeUpdate\<close> and \<open>handleSeek\<close>.\<close>

definition App_handleTimeUpdate :: "real \<Rightarrow> App \<Rightarrow> App" where
  "App_handleTimeUpdate time app = app\<lparr>app_currentTime := time\<rparr>"

definition App_handleSeek :: "real \<Rightarrow> App \<Rightarrow> App" where
  "App_handleSeek time app =
     (let app1 = app\<lparr>app_currentTime := time\<rparr>
      in case audioPlayerRef app1 of
           None \<Rightarrow> app1
         | Some p \<Rightarrow> app1\<lparr>audioPlayerRef := Some (seekToTime time p)\<rparr>)"

text \<open>
  The \<open>timeupdate\<close> listener of \<open>AudioPlayer.tsx\<close>, with its \<open>onTimeUpdate\<close> prop bound to
  \<open>handleTimeUpdate\<close> of \<open>App\<close>: the engine's event, which reports the element's position.
\<close>

definition AudioPlayer_handleTimeUpdate :: "App \<Rightarrow> App" where
  "AudioPlayer_handleTimeUpdate app =
     (case audioPlayerRef app of
        None \<Rightarrow> app
      | Some p \<Rightarrow>
          (case audioRef p of
             None \<Rightarrow> app
           | Some audio \<Rightarrow>
               (let time = audio_currentTime audio
                in App_handleTimeUpdate time
                     (app\<lparr>audioPlayerRef := Some (p\<lparr>player_currentTime := time\<rparr>)\<rparr>))))"

text \<open>
  What a render of \<open>App\<close> resolves from its state: the segment that \<open>ProgressBar\<close>
  highlights and the segments that \<open>LyricsDisplay\<close> marks active, with their active words.
\<close>

definition activeWords :: "real \<Rightarrow> Segment \<Rightarrow> Word list" where
  "activeWords currentTime segment = filter (isWordActive currentTime) (words segment)"

definition resolve :: "App \<Rightarrow> Segment option \<times> (Segment \<times> Word list) list" where
  "resolve app =
     (getCurrentSegment (segments (lyricsData app)) (app_currentTime app),
      map (\<lambda>segment. (segment, activeWords (app_currentTime app) segment))
        (filter (isSegmentActive (app_currentTime app)) (segments (lyricsData app))))"

section \<open>Loading the lyrics document\<close>

text \<open>
  \<open>App.tsx\<close>, \<open>loadAlignedData\<close>. \<open>fetch_json url\<close> is the outcome of
  \<open>fetch(url)\<close> followed by \<open>response.json()\<close>: the parsed document, or the exception
  that one of the two promises rejected with. The function returns the console output and
  what its promise settles with.
\<close>

datatype error = TypeError | SyntaxError

type_synonym fetcher = "string \<Rightarrow> error + LyricsDocument"

definition sampleLyricsData :: LyricsDocument where
  "sampleLyricsData =
     \<lparr>metadata =
        \<lparr>meta_title = ''Turkish Song Sample'', artists = [''Artist''], meta_duration = 147,
         meta_language = ''tr'', alignment_method = ''sample'', alignment_quality = 0\<rparr>,
      segments =
        [\<lparr>text' = ''Sample Turkish text'', start = 1/2, end' = 4, id' = ''seg_001'',
          words =
            [\<lparr>text' = ''Sample'', start = 1/2, end' = 3/2, confidence = 8/10,
              syllables =
                [\<lparr>text' = ''Sam'', start = 1/2, end' = 1\<rparr>,
                 \<lparr>text' = ''ple'', start = 1, end' = 3/2\<rparr>],
              translation = Some \<lparr>literal = ''example'', contextual = Some ''example''\<rparr>\<rparr>]\<rparr>]\<rparr>"

definition loadAlignedData :: "fetcher \<Rightarrow> string list \<times> (error + LyricsDocument)" where
  "loadAlignedData fetch_json =
     (case fetch_json ''/data/processed/yana_smart_processed.json'' of
        Inr data \<Rightarrow> ([], Inr data)
      | Inl err \<Rightarrow>
          (case fetch_json ''/data/processed/yana_claude_aligned.json'' of
             Inr data \<Rightarrow> ([''Failed to load smart processed data:''], Inr data)
           | Inl err2 \<Rightarrow>
               ([''Failed to load smart processed data:'', ''Failed to load fallback data:''],
                Inr sampleLyricsData)))"

text \<open>
  The range input of \<open>AudioPlayer.tsx\<close> (\<open>handleSeek\<close>, with \<open>onSeek\<close> bound to
  \<open>handleSeek\<close> of \<open>App\<close>; the argument is the parsed value of the input), and the
  \<open>onSeek\<close> that \<open>App\<close> hands to \<open>ProgressBar\<close>.
\<close>

definition AudioPlayer_handleSeek :: "real \<Rightarrow> App \<Rightarrow> App" where
  "AudioPlayer_handleSeek newTime app =
     (case audioPlayerRef app of
        None \<Rightarrow> app
      | Some p \<Rightarrow>
          (case audioRef p of
             None \<Rightarrow> app
           | Some audio \<Rightarrow>
               App_handleSeek newTime
                 (app\<lparr>audioPlayerRef :=
                    Some (p\<lparr>audioRef := Some (audio\<lparr>audio_currentTime := newTime\<rparr>),
                            player_currentTime := newTime\<rparr>)\<rparr>)))"

definition ProgressBar_onSeek :: "real \<Rightarrow> App \<Rightarrow> App" where
  "ProgressBar_onSeek time app = app\<lparr>app_currentTime := time\<rparr>"

section \<open>Song library\<close>

text \<open>
  \<open>SongManager.tsx\<close>. An optional field of \<open>Song\<close> is an \<open>option\<close>. \<open>Partial<Song>\<close>
  is \<open>SongUpdates\<close>: each field is present (\<open>Some\<close>) or absent, and the object spread
  \<open>{...song, ...updates}\<close> overwrites the fields that are present.
\<close>

datatype Status =
  new | downloading | downloaded | lyrics_searching | lyrics_found | processing | ready
  | error_status

datatype LyricsStatus = none | searching | found | verified | user_edited

record LyricsSource =
  url :: string
  siteName :: string
  lyrics :: string
  source_confidence :: real

record Song =
  song_id :: string
  youtubeUrl :: string
  title :: string
  artist :: string
  language :: string
  status :: Status
  downloadedAt :: "string option"
  audioFilePath :: "string option"
  lyricsStatus :: LyricsStatus
  lyricsSources :: "LyricsSource list"
  finalLyrics :: string
  lyricsVerified :: bool
  processingVersion :: "string option"
  processedAt :: "string option"
  processedDataPath :: "string option"
  duration :: "real option"
  thumbnailUrl :: "string option"
  addedAt :: string
  updatedAt :: string
  error :: "string option"

record SongUpdates =
  u_id :: "string option"
  u_youtubeUrl :: "string option"
  u_title :: "string option"
  u_artist :: "string option"
  u_language :: "string option"
  u_status :: "Status option"
  u_downloadedAt :: "string option option"
  u_audioFilePath :: "string option option"
  u_lyricsStatus :: "LyricsStatus option"
  u_lyricsSources :: "LyricsSource list option"
  u_finalLyrics :: "string option"
  u_lyricsVerified :: "bool option"
  u_processingVersion :: "string option option"
  u_processedAt :: "string option option"
  u_processedDataPath :: "string option option"
  u_duration :: "real option option"
  u_thumbnailUrl :: "string option option"
  u_addedAt :: "string option"
  u_updatedAt :: "string option"
  u_error :: "string option option"

definition override :: "'a option \<Rightarrow> 'a \<Rightarrow> 'a" where
  "override u v = (case u of None \<Rightarrow> v | Some w \<Rightarrow> w)"

definition spread :: "Song \<Rightarrow> SongUpdates \<Rightarrow> Song" where
  "spread song updates =
     \<lparr>song_id = override (u_id updates) (song_id song),
      youtubeUrl = override (u_youtubeUrl updates) (youtubeUrl song),
      title = override (u_title updates) (title song),
      artist = override (u_artist updates) (artist song),
      language = override (u_language updates) (language song),
      status = override (u_status updates) (status song),
      downloadedAt = override (u_downloadedAt updates) (downloadedAt song),
      audioFilePath = override (u_audioFilePath updates) (audioFilePath song),
      lyricsStatus = override (u_lyricsStatus updates) (lyricsStatus song),
      lyricsSources = override (u_lyricsSources updates) (lyricsSources song),
      finalLyrics = override (u_finalLyrics updates) (finalLyrics song),
      lyricsVerified = override (u_lyricsVerified updates) (lyricsVerified song),
      processingVersion = override (u_processingVersion updates) (processingVersion song),
      processedAt = override (u_processedAt updates) (processedAt song),
      processedDataPath = override (u_processedDataPath updates) (processedDataPath song),
      duration = override (u_duration updates) (duration song),
      thumbnailUrl = override (u_thumbnailUrl updates) (thumbnailUrl song),
      addedAt = override (u_addedAt updates) (addedAt song),
      updatedAt = override (u_updatedAt updates) (updatedAt song),
      error = override (u_error updates) (error song)\<rparr>"

text \<open>
  The state cells of the component, and the browser around it: \<open>localStorage\<close> and the
  \<open>alert\<close> dialogs shown. A handler is a closure made by one render: it reads the state
  that render captured (the argument \<open>r\<close>) and writes to the browser it runs in.
\<close>

record SongManager =
  songs :: "Song list"
  newYoutubeUrl :: string
  selectedSong :: "Song option"
  editMode :: bool

record Browser =
  component :: SongManager
  localStorage :: "string \<rightharpoonup> string"
  alerts :: "string list"

text \<open>
  \<open>saveSongs\<close>. \<open>stringify\<close> is \<open>JSON.stringify\<close> on an array of songs.
\<close>

definition saveSongs :: "(Song list \<Rightarrow> string) \<Rightarrow> Song list \<Rightarrow> Browser \<Rightarrow> Browser" where
  "saveSongs stringify updatedSongs b =
     b\<lparr>component := (component b)\<lparr>songs := updatedSongs\<rparr>,
       localStorage := (localStorage b)(''karaokeSongLibrary'' \<mapsto> stringify updatedSongs)\<rparr>"

text \<open>
  \<open>updateSong\<close> and \<open>updateSongStatus\<close>. \<open>now\<close> is \<open>new Date().toISOString()\<close>.
\<close>

definition updateSong ::
  "(Song list \<Rightarrow> string) \<Rightarrow> string \<Rightarrow> SongManager \<Rightarrow> string \<Rightarrow> SongUpdates \<Rightarrow> Browser \<Rightarrow> Browser"
where
  "updateSong stringify now r songId updates b =
     (let updatedSongs =
        map (\<lambda>song. if song_id song = songId then (spread song updates)\<lparr>updatedAt := now\<rparr> else song)
          (songs r)
      in saveSongs stringify updatedSongs b)"

definition noUpdates :: SongUpdates where
  "noUpdates =
     \<lparr>u_id = None, u_youtubeUrl = None, u_title = None, u_artist = None, u_language = None,
      u_status = None, u_downloadedAt = None, u_audioFilePath = None, u_lyricsStatus = None,
      u_lyricsSources = None, u_finalLyrics = None, u_lyricsVerified = None,
      u_processingVersion = None, u_processedAt = None, u_processedDataPath = None,
      u_duration = None, u_thumbnailUrl = None, u_addedAt = None, u_updatedAt = None,
      u_error = None\<rparr>"

definition updateSongStatus ::
  "(Song list \<Rightarrow> string) \<Rightarrow> string \<Rightarrow> SongManager \<Rightarrow> string \<Rightarrow> Status \<Rightarrow> SongUpdates
     \<Rightarrow> Browser \<Rightarrow> Browser"
where
  "updateSongStatus stringify now r songId st additionalUpdates b =
     updateSong stringify now r songId
       (additionalUpdates\<lparr>u_status := Some (override (u_status additionalUpdates) st)\<rparr>) b"

text \<open>
  \<open>extractVideoId\<close>. The regular expression is
  \<open>(?:youtube\.com\/watch\?v=|youtu\.be\/|youtube\.com\/embed\/)([^&\n?#]+)\<close>: at the
  leftmost position where one of the three literals is followed by at least one character
  other than \<open>&\<close>, newline, \<open>?\<close> and \<open>#\<close>, the longest run of such characters is the
  video id. \<open>matchAt\<close> matches at the head of the string, trying the literals in order.
\<close>

definition urlPatterns :: "string list" where
  "urlPatterns = [''youtube.com/watch?v='', ''youtu.be/'', ''youtube.com/embed/'']"

definition idChar :: "char \<Rightarrow> bool" where
  "idChar c \<longleftrightarrow> c \<noteq> CHR ''&'' \<and> c \<noteq> CHR 0x0A \<and> c \<noteq> CHR ''?'' \<and> c \<noteq> CHR ''#''"

definition captureAfter :: "string \<Rightarrow> string \<Rightarrow> string option" where
  "captureAfter s p =
     (if take (length p) s = p \<and> takeWhile idChar (drop (length p) s) \<noteq> []
      then Some (takeWhile idChar (drop (length p) s)) else None)"

definition matchAt :: "string \<Rightarrow> string option" where
  "matchAt s =
     (case array_find (\<lambda>p. captureAfter s p \<noteq> None) urlPatterns of
        None \<Rightarrow> None
      | Some p \<Rightarrow> captureAfter s p)"

fun extractVideoId :: "string \<Rightarrow> string option" where
  "extractVideoId [] = matchAt []"
| "extractVideoId (c # cs) =
     (case matchAt (c # cs) of
        Some videoId \<Rightarrow> Some videoId
      | None \<Rightarrow> extractVideoId cs)"

text \<open>
  \<open>String.prototype.trim\<close> on the white space of ASCII (tab, line feed, vertical tab, form
  feed, carriage return, space).
\<close>

definition isWhiteSpace :: "char \<Rightarrow> bool" where
  "isWhiteSpace c \<longleftrightarrow>
     c \<in> {CHR 0x09, CHR 0x0A, CHR 0x0B, CHR 0x0C, CHR 0x0D, CHR '' ''}"

definition trim :: "string \<Rightarrow> string" where
  "trim s = rev (dropWhile isWhiteSpace (rev (dropWhile isWhiteSpace s)))"

text \<open>Decimal digits of a natural number, for the template string \<open>song-${Date.now()}\<close>.\<close>

fun decimal :: "nat \<Rightarrow> string" where
  "decimal n =
     (if n < 10 then [''0123456789'' ! n]
      else decimal (n div 10) @ [''0123456789'' ! (n mod 10)])"

declare decimal.simps [simp del]

text \<open>
  \<open>addNewSong\<close>, up to the call of \<open>processNewSong\<close>. \<open>dateNow\<close> is \<open>Date.now()\<close> and
  \<open>now\<close> is \<open>new Date().toISOString()\<close>. The second component of the result is the
  song that is handed to the processing pipeline, if the handler gets that far; the
  pipeline itself (remote calls) is not part of the model.
\<close>

definition addNewSong ::
  "(Song list \<Rightarrow> string) \<Rightarrow> nat \<Rightarrow> string \<Rightarrow> SongManager \<Rightarrow> Browser \<Rightarrow> Browser \<times> Song option"
where
  "addNewSong stringify dateNow now r b =
     (if trim (newYoutubeUrl r) = [] then (b, None)
      else
        (case extractVideoId (newYoutubeUrl r) of
           None \<Rightarrow> (b\<lparr>alerts := alerts b @ [''Please enter a valid YouTube URL'']\<rparr>, None)
         | Some videoId \<Rightarrow>
             if videoId = [] then
               (b\<lparr>alerts := alerts b @ [''Please enter a valid YouTube URL'']\<rparr>, None)
             else
               (let newSong =
                  \<lparr>song_id = ''song-'' @ decimal dateNow,
                   youtubeUrl = newYoutubeUrl r,
                   title = ''Extracting...'',
                   artist = ''Unknown'',
                   language = ''auto-detect'',
                   status = new,
                   downloadedAt = None,
                   audioFilePath = None,
                   lyricsStatus = none,
                   lyricsSources = [],
                   finalLyrics = '''',
                   lyricsVerified = False,
                   processingVersion = None,
                   processedAt = None,
                   processedDataPath = None,
                   duration = None,
                   thumbnailUrl = None,
                   addedAt = now,
                   updatedAt = now,
                   error = None\<rparr>;
                  updatedSongs = newSong # songs r;
                  b1 = saveSongs stringify updatedSongs b
                in (b1\<lparr>component := (component b1)\<lparr>newYoutubeUrl := ''''\<rparr>\<rparr>, Some newSong))))"

text \<open>
  What \<open>addNewSong\<close> runs before it first suspends. \<open>await processNewSong(newSong)\<close>
  calls \<open>processNewSong\<close>, which calls \<open>extractMetadata\<close>, whose first statement is
  \<open>updateSongStatus(song.id, 'downloading')\<close>; only then comes the first \<open>await\<close> of a
  \<open>fetch\<close>. All of these functions are closures of the render that made \<open>addNewSong\<close>,
  so they read the same captured state \<open>r\<close>. \<open>now2\<close> is \<open>new Date().toISOString()\<close> at
  the status update.
\<close>

definition extractMetadata_first ::
  "(Song list \<Rightarrow> string) \<Rightarrow> string \<Rightarrow> SongManager \<Rightarrow> Song \<Rightarrow> Browser \<Rightarrow> Browser"
where
  "extractMetadata_first stringify now2 r song b =
     updateSongStatus stringify now2 r (song_id song) downloading noUpdates b"

definition processNewSong_first ::
  "(Song list \<Rightarrow> string) \<Rightarrow> string \<Rightarrow> SongManager \<Rightarrow> Song \<Rightarrow> Browser \<Rightarrow> Browser"
where
  "processNewSong_first stringify now2 r song b = extractMetadata_first stringify now2 r song b"

definition addNewSong_sync ::
  "(Song list \<Rightarrow> string) \<Rightarrow> nat \<Rightarrow> string \<Rightarrow> string \<Rightarrow> SongManager \<Rightarrow> Browser \<Rightarrow> Browser"
where
  "addNewSong_sync stringify dateNow now now2 r b =
     (case addNewSong stringify dateNow now r b of
        (b1, None) \<Rightarrow> b1
      | (b1, Some newSong) \<Rightarrow> processNewSong_first stringify now2 r newSong b1)"

section \<open>Example data\<close>

text \<open>Two overlapping segments, A (0 to 5) and B (4 to 9).\<close>

definition segA :: Segment where
  "segA = \<lparr>text' = ''A'', start = 0, end' = 5, id' = ''a'', words = []\<rparr>"

definition segB :: Segment where
  "segB = \<lparr>text' = ''B'', start = 4, end' = 9, id' = ''b'', words = []\<rparr>"

text \<open>A word from 0 to 1, a word of zero length at 1, and a word whose interval is inverted.\<close>

definition word01 :: Word where
  "word01 = \<lparr>text' = ''Sample'', start = 0, end' = 1, confidence = 1, syllables = [],
             translation = None\<rparr>"

definition word11 :: Word where
  "word11 = \<lparr>text' = ''Sample'', start = 1, end' = 1, confidence = 1, syllables = [],
             translation = None\<rparr>"

definition wordInverted :: Word where
  "wordInverted = \<lparr>text' = ''Sample'', start = 2, end' = 1, confidence = 1, syllables = [],
                   translation = None\<rparr>"

definition segInverted :: Segment where
  "segInverted = \<lparr>text' = ''Sample'', start = 2, end' = 1, id' = ''s'', words = [wordInverted]\<rparr>"

definition syllableInverted :: Syllable where
  "syllableInverted = \<lparr>text' = ''Sam'', start = 2, end' = 1\<rparr>"

definition seg04 :: Segment where
  "seg04 = \<lparr>text' = ''Sample'', start = 0, end' = 4, id' = ''s'', words = [word01]\<rparr>"

text \<open>A mounted player at position 0 and rate 1, inside an application that shows the sample.\<close>

definition audio0 :: HTMLAudioElement where
  "audio0 = \<lparr>audio_currentTime = 0, audio_playbackRate = 1, audio_preservesPitch = False\<rparr>"

definition player0 :: AudioPlayer where
  "player0 = \<lparr>audioRef = Some audio0, isPlaying = False, player_currentTime = 0,
               player_duration = 147, playbackSpeed = 100\<rparr>"

definition app0 :: App where
  "app0 = \<lparr>app_currentTime = 0, app_duration = 147, viewMode = karaoke,
            showTranslations = True, lyricsData = sampleLyricsData, activeTab = lyrics_tab,
            audioPlayerRef = Some player0\<rparr>"

text \<open>
  Outcomes of the two fetches: both fail; the first yields a document without segments;
  only the fallback resource can be read.
\<close>

definition emptyDocument :: LyricsDocument where
  "emptyDocument = \<lparr>metadata = metadata sampleLyricsData, segments = []\<rparr>"

definition otherDocument :: LyricsDocument where
  "otherDocument = \<lparr>metadata = metadata sampleLyricsData, segments = [segA, segB]\<rparr>"

definition failingFetcher :: fetcher where
  "failingFetcher u = Inl TypeError"

definition emptyFetcher :: fetcher where
  "emptyFetcher u = Inr emptyDocument"

definition fallbackFetcher :: fetcher where
  "fallbackFetcher u =
     (if u = ''/data/processed/yana_claude_aligned.json'' then Inr otherDocument
      else Inl SyntaxError)"

text \<open>A word with a translation and no syllables.\<close>

definition wordTranslated :: Word where
  "wordTranslated = \<lparr>text' = ''Sample'', start = 0, end' = 1, confidence = 1, syllables = [],
                     translation = Some \<lparr>literal = ''example'', contextual = None\<rparr>\<rparr>"

text \<open>A library of two songs, an update of the title, and a stand-in for \<open>JSON.stringify\<close>.\<close>

definition song1 :: Song where
  "song1 =
     \<lparr>song_id = ''song-1'', youtubeUrl = ''https://youtu.be/Q3cj3lVCxr0'', title = ''Yana Yana'',
      artist = ''Semicenk'', language = ''tr'', status = ready, downloadedAt = None,
      audioFilePath = None, lyricsStatus = verified, lyricsSources = [], finalLyrics = [],
      lyricsVerified = True, processingVersion = None, processedAt = None,
      processedDataPath = None, duration = None, thumbnailUrl = None,
      addedAt = ''2024-01-01'', updatedAt = ''2024-01-01'', error = None\<rparr>"

definition song2 :: Song where
  "song2 = song1\<lparr>song_id := ''song-2'', title := ''Extracting...'', status := new\<rparr>"

definition titleUpdate :: SongUpdates where
  "titleUpdate = noUpdates\<lparr>u_title := Some ''Other'', u_updatedAt := Some ''1999-01-01''\<rparr>"

definition idsOf :: "Song list \<Rightarrow> string" where
  "idsOf l = concat (map song_id l)"

definition render0 :: SongManager where
  "render0 = \<lparr>songs = [song1, song2], newYoutubeUrl = ''not a url'', selectedSong = None,
               editMode = False\<rparr>"

definition renderBlank :: SongManager where
  "renderBlank = render0\<lparr>newYoutubeUrl := ''   ''\<rparr>"

definition renderValid :: SongManager where
  "renderValid = render0\<lparr>newYoutubeUrl := ''https://youtu.be/abc?t=1''\<rparr>"

definition browser0 :: Browser where
  "browser0 = \<lparr>component = render0, localStorage = Map.empty, alerts = []\<rparr>"

text \<open>
  The browser in which the render \<open>renderValid\<close> is on screen, with the library of that
  render stored.
\<close>

definition browserValid :: Browser where
  "browserValid = \<lparr>component = renderValid,
                    localStorage = [''karaokeSongLibrary'' \<mapsto> idsOf [song1, song2]],
                    alerts = []\<rparr>"

text \<open>A user agent that supports the playback rates from 1/16 to 16.\<close>

definition supportsRate :: "real \<Rightarrow> bool" where
  "supportsRate rate \<longleftrightarrow> 1 / 16 \<le> rate \<and> rate \<le> 16"

section \<open>Active segment\<close>

lemma array_find_find: "array_find p xs = List.find p xs"
  by (induction xs) simp_all

text \<open>
  C1. \<open>getCurrentSegment\<close> returns the first segment, in the order of the list, whose
  interval contains the time, both bounds included, and returns nothing exactly when no
  segment's interval contains the time. With A from 0 to 5 before B from 4 to 9, the
  result at 4.5 is A.
\<close>

theorem getCurrentSegment_first_match:
  "(getCurrentSegment segs t = Some s \<longleftrightarrow>
      (\<exists>i<length segs. segs ! i = s \<and> start s \<le> t \<and> t \<le> end' s \<and>
         (\<forall>j<i. \<not> (start (segs ! j) \<le> t \<and> t \<le> end' (segs ! j)))))
   \<and> (getCurrentSegment segs t = None \<longleftrightarrow>
        (\<forall>x\<in>set segs. \<not> (start x \<le> t \<and> t \<le> end' x)))
   \<and> (start a = 0 \<and> end' a = 5 \<and> start b = 4 \<and> end' b = 9 \<longrightarrow>
        getCurrentSegment [a, b] (9 / 2) = Some a)"
proof (intro conjI)
  show "getCurrentSegment segs t = Some s \<longleftrightarrow>
      (\<exists>i<length segs. segs ! i = s \<and> start s \<le> t \<and> t \<le> end' s \<and>
         (\<forall>j<i. \<not> (start (segs ! j) \<le> t \<and> t \<le> end' (segs ! j))))"
    unfolding getCurrentSegment_def array_find_find find_Some_iff by auto
  show "getCurrentSegment segs t = None \<longleftrightarrow>
        (\<forall>x\<in>set segs. \<not> (start x \<le> t \<and> t \<le> end' x))"
    unfolding getCurrentSegment_def array_find_find find_None_iff by auto
  show "start a = 0 \<and> end' a = 5 \<and> start b = 4 \<and> end' b = 9 \<longrightarrow>
        getCurrentSegment [a, b] (9 / 2) = Some a"
    by (simp add: getCurrentSegment_def)
qed

theorem getCurrentSegment_first_match_witness:
  "start segA = 0 \<and> end' segA = 5 \<and> start segB = 4 \<and> end' segB = 9
   \<and> getCurrentSegment [segA, segB] (9 / 2) = Some segA
   \<and> \<not> (start segA \<le> 10 \<and> 10 \<le> end' segA) \<and> \<not> (start segB \<le> 10 \<and> 10 \<le> end' segB)
   \<and> getCurrentSegment [segA, segB] 10 = None"
proof -
  have bounds: "start segA = 0 \<and> end' segA = 5 \<and> start segB = 4 \<and> end' segB = 9"
    by (simp add: segA_def segB_def)
  have hit: "getCurrentSegment [segA, segB] (9 / 2) = Some segA"
    using getCurrentSegment_first_match [of "[segA, segB]" "9 / 2" segA segA segB] bounds
    by blast
  have miss: "\<forall>x\<in>set [segA, segB]. \<not> (start x \<le> 10 \<and> 10 \<le> end' x)"
    by (simp add: segA_def segB_def)
  then have "getCurrentSegment [segA, segB] 10 = None"
    using getCurrentSegment_first_match [of "[segA, segB]" 10 segA segA segB] by blast
  with hit miss bounds show ?thesis by simp
qed

section \<open>Progress within a word and a segment\<close>

lemma progress_inside:
  assumes "s < e" and "s \<le> t" and "t \<le> e"
  shows "Math_min 100 (Math_max 0 (js_times (js_div (t - s) (e - s)) 100))
         = Num ((t - s) / (e - s) * 100)"
proof -
  from assms have pos: "0 < e - s" by simp
  from assms pos have lo: "0 \<le> (t - s) / (e - s) * 100"
    by simp
  from assms pos have "(t - s) / (e - s) \<le> 1"
    by (simp add: divide_le_eq_1)
  then have "(t - s) / (e - s) * 100 \<le> 1 * 100"
    by (rule mult_right_mono) simp
  also have "1 * 100 = (100::real)" by simp
  finally have hi: "(t - s) / (e - s) * 100 \<le> 100" .
  from pos have "js_div (t - s) (e - s) = Num ((t - s) / (e - s))"
    by (simp add: js_div_def)
  with lo hi show ?thesis by (simp add: max_def min_def)
qed

lemma getWordProgress_inside:
  "start w < end' w \<Longrightarrow> start w \<le> t \<Longrightarrow> t \<le> end' w \<Longrightarrow>
   getWordProgress t w = Num ((t - start w) / (end' w - start w) * 100)"
  by (simp add: getWordProgress_def Let_def progress_inside)

lemma getSegmentProgress_inside:
  "start g < end' g \<Longrightarrow> start g \<le> t \<Longrightarrow> t \<le> end' g \<Longrightarrow>
   getSegmentProgress t g = Num ((t - start g) / (end' g - start g) * 100)"
  by (simp add: getSegmentProgress_def Let_def progress_inside)

lemma percentage_mono:
  fixes s e t1 t2 :: real
  assumes "s < e" and "t1 \<le> t2"
  shows "(t1 - s) / (e - s) * 100 \<le> (t2 - s) / (e - s) * 100"
proof -
  from assms have "(t1 - s) / (e - s) \<le> (t2 - s) / (e - s)"
    by (simp add: divide_right_mono)
  then show ?thesis by (rule mult_right_mono) simp
qed

text \<open>
  C2, as stated, fails: \<open>getWordProgress\<close> returns a percentage, 100 and not 1 after the
  end of the word, and for a word of zero length it divides zero by zero at the one time
  \<open>start = end\<close>, which gives \<open>NaN\<close>.
\<close>

theorem getWordProgress_fraction_counterexample:
  "start word01 \<le> end' word01 \<and> 2 > end' word01
   \<and> getWordProgress 2 word01 = Num 100 \<and> getWordProgress 2 word01 \<noteq> Num 1
   \<and> start word11 = end' word11 \<and> 1 \<ge> start word11
   \<and> getWordProgress 1 word11 = NaN \<and> getWordProgress 1 word11 \<noteq> Num 1"
  by (simp add: getWordProgress_def word01_def word11_def js_div_def)

text \<open>
  C2, amended. For an interval with \<open>start \<le> end\<close>, \<open>getWordProgress\<close> returns the
  percentage 0 before \<open>start\<close>, 100 after \<open>end\<close>, and
  \<open>(time - start) / (end - start) * 100\<close> from \<open>start\<close> to \<open>end\<close> when \<open>start < end\<close>.
  In particular a word of zero length has 100 at every time after its start.
\<close>

theorem getWordProgress_percentage:
  assumes "start w \<le> end' w"
  shows "(t < start w \<longrightarrow> getWordProgress t w = Num 0)
     \<and> (t > end' w \<longrightarrow> getWordProgress t w = Num 100)
     \<and> (start w < end' w \<and> start w \<le> t \<and> t \<le> end' w \<longrightarrow>
          getWordProgress t w = Num ((t - start w) / (end' w - start w) * 100))
     \<and> (start w = end' w \<and> t > start w \<longrightarrow> getWordProgress t w = Num 100)"
proof (intro conjI impI)
  assume "t < start w"
  then show "getWordProgress t w = Num 0" by (simp add: getWordProgress_def)
next
  assume "t > end' w"
  with assms show "getWordProgress t w = Num 100" by (simp add: getWordProgress_def)
next
  assume "start w < end' w \<and> start w \<le> t \<and> t \<le> end' w"
  then show "getWordProgress t w = Num ((t - start w) / (end' w - start w) * 100)"
    by (simp add: getWordProgress_inside)
next
  assume "start w = end' w \<and> t > start w"
  then show "getWordProgress t w = Num 100" by (simp add: getWordProgress_def)
qed

theorem getWordProgress_percentage_witness:
  "start word01 \<le> end' word01
   \<and> getWordProgress (-1) word01 = Num 0
   \<and> getWordProgress 2 word01 = Num 100
   \<and> getWordProgress (1 / 4) word01 = Num 25
   \<and> start word11 \<le> end' word11
   \<and> getWordProgress 3 word11 = Num 100"
proof -
  have a: "start word01 \<le> end' word01" and b: "start word11 \<le> end' word11"
    by (simp_all add: word01_def word11_def)
  have c: "start word01 = 0" "end' word01 = 1" "start word11 = 1" "end' word11 = 1"
    by (simp_all add: word01_def word11_def)
  from getWordProgress_percentage [OF a, of "-1"] c
  have "getWordProgress (-1) word01 = Num 0" by simp
  moreover from getWordProgress_percentage [OF a, of 2] c
  have "getWordProgress 2 word01 = Num 100" by simp
  moreover from getWordProgress_percentage [OF a, of "1 / 4"] c
  have "getWordProgress (1 / 4) word01 = Num 25" by simp
  moreover from getWordProgress_percentage [OF b, of 3] c
  have "getWordProgress 3 word11 = Num 100" by simp
  ultimately show ?thesis using a b by simp
qed

text \<open>
  C3, as stated, fails at the end of the interval: the value there is 100, not 1.
\<close>

theorem progress_at_end_counterexample:
  "start word01 < end' word01
   \<and> getWordProgress (end' word01) word01 = Num 100
   \<and> getWordProgress (end' word01) word01 \<noteq> Num 1
   \<and> start seg04 < end' seg04
   \<and> getSegmentProgress (end' seg04) seg04 = Num 100
   \<and> getSegmentProgress (end' seg04) seg04 \<noteq> Num 1"
  by (simp add: getWordProgress_def getSegmentProgress_def word01_def seg04_def js_div_def)

text \<open>
  C3, amended. For an interval with \<open>start < end\<close>, \<open>getWordProgress\<close> and
  \<open>getSegmentProgress\<close> are finite and monotonically non-decreasing in the time over
  \<open>[start, end]\<close>, equal 0 at \<open>start\<close> and equal 100 at \<open>end\<close>.
\<close>

theorem progress_monotone:
  "(start w < end' w \<longrightarrow>
      (\<forall>t1 t2. start w \<le> t1 \<and> t1 \<le> t2 \<and> t2 \<le> end' w \<longrightarrow>
         (\<exists>p1 p2. getWordProgress t1 w = Num p1 \<and> getWordProgress t2 w = Num p2 \<and> p1 \<le> p2))
      \<and> getWordProgress (start w) w = Num 0
      \<and> getWordProgress (end' w) w = Num 100)
   \<and> (start g < end' g \<longrightarrow>
      (\<forall>t1 t2. start g \<le> t1 \<and> t1 \<le> t2 \<and> t2 \<le> end' g \<longrightarrow>
         (\<exists>p1 p2. getSegmentProgress t1 g = Num p1 \<and> getSegmentProgress t2 g = Num p2 \<and> p1 \<le> p2))
      \<and> getSegmentProgress (start g) g = Num 0
      \<and> getSegmentProgress (end' g) g = Num 100)"
proof (intro conjI impI allI)
  fix t1 t2
  assume lt: "start w < end' w" and "start w \<le> t1 \<and> t1 \<le> t2 \<and> t2 \<le> end' w"
  then have "getWordProgress t1 w = Num ((t1 - start w) / (end' w - start w) * 100)"
    and "getWordProgress t2 w = Num ((t2 - start w) / (end' w - start w) * 100)"
    and "t1 \<le> t2"
    by (simp_all add: getWordProgress_inside)
  with lt show "\<exists>p1 p2. getWordProgress t1 w = Num p1 \<and> getWordProgress t2 w = Num p2 \<and> p1 \<le> p2"
    using percentage_mono [of "start w" "end' w" t1 t2] by blast
next
  assume "start w < end' w"
  then show "getWordProgress (start w) w = Num 0"
    by (simp add: getWordProgress_inside)
next
  assume "start w < end' w"
  then show "getWordProgress (end' w) w = Num 100"
    by (simp add: getWordProgress_inside)
next
  fix t1 t2
  assume lt: "start g < end' g" and "start g \<le> t1 \<and> t1 \<le> t2 \<and> t2 \<le> end' g"
  then have "getSegmentProgress t1 g = Num ((t1 - start g) / (end' g - start g) * 100)"
    and "getSegmentProgress t2 g = Num ((t2 - start g) / (end' g - start g) * 100)"
    and "t1 \<le> t2"
    by (simp_all add: getSegmentProgress_inside)
  with lt show "\<exists>p1 p2. getSegmentProgress t1 g = Num p1 \<and> getSegmentProgress t2 g = Num p2 \<and> p1 \<le> p2"
    using percentage_mono [of "start g" "end' g" t1 t2] by blast
next
  assume "start g < end' g"
  then show "getSegmentProgress (start g) g = Num 0"
    by (simp add: getSegmentProgress_inside)
next
  assume "start g < end' g"
  then show "getSegmentProgress (end' g) g = Num 100"
    by (simp add: getSegmentProgress_inside)
qed

theorem progress_monotone_witness:
  "start word01 < end' word01
   \<and> getWordProgress (1 / 4) word01 = Num 25 \<and> getWordProgress (1 / 2) word01 = Num 50
   \<and> getWordProgress (start word01) word01 = Num 0
   \<and> getWordProgress (end' word01) word01 = Num 100
   \<and> start seg04 < end' seg04
   \<and> getSegmentProgress 1 seg04 = Num 25 \<and> getSegmentProgress 3 seg04 = Num 75
   \<and> getSegmentProgress (start seg04) seg04 = Num 0
   \<and> getSegmentProgress (end' seg04) seg04 = Num 100"
proof -
  have w: "start word01 < end' word01" and g: "start seg04 < end' seg04"
    by (simp_all add: word01_def seg04_def)
  have vals: "getWordProgress (1 / 4) word01 = Num 25" "getWordProgress (1 / 2) word01 = Num 50"
    "getSegmentProgress 1 seg04 = Num 25" "getSegmentProgress 3 seg04 = Num 75"
    by (simp_all add: getWordProgress_def getSegmentProgress_def word01_def seg04_def js_div_def)
  from w g vals progress_monotone [of word01 seg04] show ?thesis by simp
qed

section \<open>Inverted intervals\<close>

text \<open>
  C8. A word, syllable or segment whose interval is inverted (\<open>end < start\<close>) is active at
  no time: the predicates of \<open>LyricsDisplay\<close> are false for it, its \<open>span\<close> carries no
  \<open>active\<close> class, \<open>WordTimingDisplay\<close> renders nothing for such a segment and marks no
  such word, \<open>getCurrentSegment\<close> never returns such a segment, and the progress of such
  a word is 0 or 100, reached without a division.
\<close>

theorem inverted_interval_never_active:
  "(end' w < start w \<longrightarrow>
      \<not> isWordActive t w
      \<and> (\<exists>cs. renderKaraokeView t st w = Span ''word '' (Some (start w)) cs)
      \<and> (\<exists>cs. renderSyllableView t st w = Span ''word '' (Some (start w)) cs)
      \<and> (getWordProgress t w = Num 0 \<or> getWordProgress t w = Num 100)
      \<and> (\<forall>g' v. w \<in> set (words g') \<and> WordTimingDisplay g' t = Some v \<longrightarrow>
            \<lparr>item_text = text' w, item_progress = getWordProgress t w, item_active = False,
             item_seek = start w\<rparr> \<in> set (items v)))
   \<and> (end' y < start y \<longrightarrow>
      \<not> isSyllableActive t y
      \<and> (\<exists>cs. renderSyllable t w' (i, y) = Span ''syllable '' None cs))
   \<and> (end' g < start g \<longrightarrow>
      \<not> isSegmentActive t g \<and> WordTimingDisplay g t = None \<and> getCurrentSegment segs t \<noteq> Some g)"
proof (intro conjI impI allI)
  assume inv: "end' w < start w"
  then show na: "\<not> isWordActive t w" by (auto simp: isWordActive_def)
  from na show "\<exists>cs. renderKaraokeView t st w = Span ''word '' (Some (start w)) cs"
    by (simp add: renderKaraokeView_def)
  from na show "\<exists>cs. renderSyllableView t st w = Span ''word '' (Some (start w)) cs"
    by (simp add: renderSyllableView_def)
  from inv show "getWordProgress t w = Num 0 \<or> getWordProgress t w = Num 100"
    by (auto simp: getWordProgress_def)
next
  fix g' v
  assume inv: "end' w < start w"
    and "w \<in> set (words g') \<and> WordTimingDisplay g' t = Some v"
  then have mem: "w \<in> set (words g')" and v: "WordTimingDisplay g' t = Some v" by simp_all
  from inv have off: "(t \<ge> start w \<and> t \<le> end' w) = False" by auto
  from v have "items v = map (\<lambda>word.
      \<lparr>item_text = text' word, item_progress = getWordProgress t word,
       item_active = (t \<ge> start word \<and> t \<le> end' word), item_seek = start word\<rparr>) (words g')"
    by (auto simp: WordTimingDisplay_def Let_def split: if_splits)
  with mem off show "\<lparr>item_text = text' w, item_progress = getWordProgress t w,
      item_active = False, item_seek = start w\<rparr> \<in> set (items v)"
    by force
next
  assume inv: "end' y < start y"
  then show na: "\<not> isSyllableActive t y" by (auto simp: isSyllableActive_def)
  from na show "\<exists>cs. renderSyllable t w' (i, y) = Span ''syllable '' None cs"
    by (simp add: renderSyllable_def)
next
  assume inv: "end' g < start g"
  then show "\<not> isSegmentActive t g" by (auto simp: isSegmentActive_def)
  from inv show "WordTimingDisplay g t = None" by (auto simp: WordTimingDisplay_def)
  from inv have "\<not> (start g \<le> t \<and> t \<le> end' g)" by auto
  then show "getCurrentSegment segs t \<noteq> Some g"
    unfolding getCurrentSegment_def array_find_find find_Some_iff by auto
qed

theorem inverted_interval_never_active_witness:
  "end' wordInverted < start wordInverted
   \<and> \<not> isWordActive (3 / 2) wordInverted
   \<and> renderKaraokeView (3 / 2) True wordInverted = Span ''word '' (Some 2) [TextNode ''Sample'']
   \<and> getWordProgress (3 / 2) wordInverted = Num 0
   \<and> end' syllableInverted < start syllableInverted
   \<and> \<not> isSyllableActive (3 / 2) syllableInverted
   \<and> end' segInverted < start segInverted
   \<and> \<not> isSegmentActive (3 / 2) segInverted
   \<and> WordTimingDisplay segInverted (3 / 2) = None
   \<and> getCurrentSegment [segA, segInverted] (3 / 2) \<noteq> Some segInverted"
proof -
  have inv: "end' wordInverted < start wordInverted"
    "end' syllableInverted < start syllableInverted" "end' segInverted < start segInverted"
    by (simp_all add: wordInverted_def syllableInverted_def segInverted_def)
  have vals: "renderKaraokeView (3 / 2) True wordInverted = Span ''word '' (Some 2) [TextNode ''Sample'']"
    "getWordProgress (3 / 2) wordInverted = Num 0"
    by (simp_all add: renderKaraokeView_def isWordActive_def translationSuffix_def
        getWordProgress_def wordInverted_def)
  from inv vals
    inverted_interval_never_active
      [of wordInverted "3 / 2" True syllableInverted wordInverted 0 segInverted "[segA, segInverted]"]
  show ?thesis by simp
qed

section \<open>Seeking\<close>

text \<open>
  C4. After \<open>handleSeek\<close> of \<open>App\<close> has run for a target time, the current time held by
  \<open>App\<close> is that time, with no \<open>timeupdate\<close> event of the engine processed in between;
  the lyrics document is untouched, so what the next render resolves is what the resolvers
  give at the target time, and a word with \<open>start \<le> end\<close> whose click seeks to its start
  is active. The same holds for the seek of the timeline and, once the player is mounted,
  for the seek of the range input; a mounted player holds the target time as well, in its
  own state and in the media element.
\<close>

theorem seek_sets_current_time:
  "app_currentTime (App_handleSeek t app) = t
   \<and> lyricsData (App_handleSeek t app) = lyricsData app
   \<and> resolve (App_handleSeek t app) =
       (getCurrentSegment (segments (lyricsData app)) t,
        map (\<lambda>segment. (segment, activeWords t segment))
          (filter (isSegmentActive t) (segments (lyricsData app))))
   \<and> (start w \<le> end' w \<longrightarrow> isWordActive (app_currentTime (App_handleSeek (start w) app)) w)
   \<and> app_currentTime (ProgressBar_onSeek t app) = t
   \<and> (\<forall>p audio. audioPlayerRef app = Some p \<and> audioRef p = Some audio \<longrightarrow>
        app_currentTime (AudioPlayer_handleSeek t app) = t
        \<and> audioPlayerRef (App_handleSeek t app) =
            Some (p\<lparr>audioRef := Some (audio\<lparr>audio_currentTime := t\<rparr>),
                    player_currentTime := t\<rparr>))"
proof -
  have time: "app_currentTime (App_handleSeek u app) = u" for u
    by (simp add: App_handleSeek_def Let_def split: option.split)
  have doc: "lyricsData (App_handleSeek t app) = lyricsData app"
    by (simp add: App_handleSeek_def Let_def split: option.split)
  have scrub: "app_currentTime (AudioPlayer_handleSeek t app) = t
      \<and> audioPlayerRef (App_handleSeek t app) =
          Some (p\<lparr>audioRef := Some (audio\<lparr>audio_currentTime := t\<rparr>),
                  player_currentTime := t\<rparr>)"
    if "audioPlayerRef app = Some p \<and> audioRef p = Some audio" for p audio
    using that
    by (simp add: AudioPlayer_handleSeek_def App_handleSeek_def seekToTime_def Let_def)
  have rest: "resolve (App_handleSeek t app) =
       (getCurrentSegment (segments (lyricsData app)) t,
        map (\<lambda>segment. (segment, activeWords t segment))
          (filter (isSegmentActive t) (segments (lyricsData app))))
     \<and> (start w \<le> end' w \<longrightarrow> isWordActive (app_currentTime (App_handleSeek (start w) app)) w)
     \<and> app_currentTime (ProgressBar_onSeek t app) = t"
    by (simp add: time doc resolve_def isWordActive_def ProgressBar_onSeek_def)
  from time [of t] doc rest scrub show ?thesis by blast
qed

theorem seek_sets_current_time_witness:
  "app_currentTime app0 = 0
   \<and> app_currentTime (App_handleSeek (6 / 5) app0) = 6 / 5
   \<and> start word01 \<le> end' word01
   \<and> isWordActive (app_currentTime (App_handleSeek (start word01) app0)) word01
   \<and> audioPlayerRef app0 = Some player0 \<and> audioRef player0 = Some audio0
   \<and> app_currentTime (AudioPlayer_handleSeek (6 / 5) app0) = 6 / 5
   \<and> audioPlayerRef (App_handleSeek (6 / 5) app0) =
       Some (player0\<lparr>audioRef := Some (audio0\<lparr>audio_currentTime := 6 / 5\<rparr>),
                    player_currentTime := 6 / 5\<rparr>)"
proof -
  have pre: "app_currentTime app0 = 0" "start word01 \<le> end' word01"
    "audioPlayerRef app0 = Some player0" "audioRef player0 = Some audio0"
    by (simp_all add: app0_def word01_def player0_def)
  from pre seek_sets_current_time [of "6 / 5" app0 word01]
  have "app_currentTime (App_handleSeek (6 / 5) app0) = 6 / 5"
    and "isWordActive (app_currentTime (App_handleSeek (start word01) app0)) word01"
    and "app_currentTime (AudioPlayer_handleSeek (6 / 5) app0) = 6 / 5"
    and "audioPlayerRef (App_handleSeek (6 / 5) app0) =
       Some (player0\<lparr>audioRef := Some (audio0\<lparr>audio_currentTime := 6 / 5\<rparr>),
                    player_currentTime := 6 / 5\<rparr>)"
    by blast+
  with pre show ?thesis by simp
qed

section \<open>Playback rate\<close>

text \<open>
  C5, as stated, fails: \<open>handleSpeedChange\<close> checks nothing itself. Handed the value 150,
  which lies outside the set, on a user agent that supports the rate 1.5, it sets the rate
  of a player running at 1 to 1.5 and no exception is thrown.
\<close>

theorem handleSpeedChange_counterexample:
  "150 \<notin> set speedOptions
   \<and> real_of_int 150 / 100 \<notin> {1 / 2, 6 / 10, 7 / 10, 8 / 10, 9 / 10, (1::real)}
   \<and> supportsRate (real_of_int 150 / 100)
   \<and> audioRef player0 =
       Some \<lparr>audio_currentTime = 0, audio_playbackRate = 1, audio_preservesPitch = False\<rparr>
   \<and> fst (handleSpeedChange supportsRate 150 player0) = None
   \<and> audioRef (snd (handleSpeedChange supportsRate 150 player0)) =
       Some \<lparr>audio_currentTime = 0, audio_playbackRate = 3 / 2, audio_preservesPitch = True\<rparr>"
  by (simp add: speedOptions_def handleSpeedChange_def set_playbackRate_def supportsRate_def
      player0_def audio0_def Let_def)

text \<open>
  C5, amended. \<open>handleSpeedChange\<close> has no check of its own. A value that reaches it on a
  mounted player is rejected, the media element and its playback rate unchanged, exactly
  when the user agent does not support the rate (the setter of \<open>playbackRate\<close> throws
  \<open>NotSupportedError\<close>); a value whose rate the user agent supports is applied, in the
  set or not, the rate becoming the value divided by 100 with pitch preserved. An unmounted
  player is left as it is. The rates stay in the set 0.5, 0.6, 0.7, 0.8, 0.9, 1.0 because
  the \<open>select\<close> offers no other value: each of its options maps into that set.
\<close>

theorem handleSpeedChange_rejects_only_unsupported:
  "(audioRef p = Some audio \<and> supports (real_of_int speed / 100) \<longrightarrow>
      fst (handleSpeedChange supports speed p) = None
      \<and> audioRef (snd (handleSpeedChange supports speed p)) =
          Some (audio\<lparr>audio_playbackRate := real_of_int speed / 100,
                       audio_preservesPitch := True\<rparr>))
   \<and> (audioRef p = Some audio \<and> \<not> supports (real_of_int speed / 100) \<longrightarrow>
      fst (handleSpeedChange supports speed p) = Some NotSupportedError
      \<and> audioRef (snd (handleSpeedChange supports speed p)) = Some audio)
   \<and> (audioRef p = None \<longrightarrow> handleSpeedChange supports speed p = (None, p))
   \<and> (\<forall>v\<in>set speedOptions.
        real_of_int v / 100 \<in> {1 / 2, 6 / 10, 7 / 10, 8 / 10, 9 / 10, 1})"
  by (simp add: handleSpeedChange_def set_playbackRate_def speedOptions_def Let_def)

theorem handleSpeedChange_rejects_only_unsupported_witness:
  "audioRef player0 = Some audio0
   \<and> supportsRate (real_of_int 70 / 100)
   \<and> fst (handleSpeedChange supportsRate 70 player0) = None
   \<and> audioRef (snd (handleSpeedChange supportsRate 70 player0)) =
       Some (audio0\<lparr>audio_playbackRate := 7 / 10, audio_preservesPitch := True\<rparr>)
   \<and> \<not> supportsRate (real_of_int 5000 / 100)
   \<and> fst (handleSpeedChange supportsRate 5000 player0) = Some NotSupportedError
   \<and> audioRef (snd (handleSpeedChange supportsRate 5000 player0)) = Some audio0
   \<and> audioRef (player0\<lparr>audioRef := None\<rparr>) = None
   \<and> handleSpeedChange supportsRate 70 (player0\<lparr>audioRef := None\<rparr>)
       = (None, player0\<lparr>audioRef := None\<rparr>)
   \<and> 70 \<in> set speedOptions"
proof -
  have pre: "audioRef player0 = Some audio0" "audioRef (player0\<lparr>audioRef := None\<rparr>) = None"
    "70 \<in> set speedOptions" "supportsRate (real_of_int 70 / 100)"
    "\<not> supportsRate (real_of_int 5000 / 100)"
    by (simp_all add: player0_def speedOptions_def supportsRate_def)
  from pre handleSpeedChange_rejects_only_unsupported [of player0 audio0 supportsRate 70]
  have ok: "fst (handleSpeedChange supportsRate 70 player0) = None
      \<and> audioRef (snd (handleSpeedChange supportsRate 70 player0)) =
          Some (audio0\<lparr>audio_playbackRate := 7 / 10, audio_preservesPitch := True\<rparr>)"
    by simp
  from pre handleSpeedChange_rejects_only_unsupported [of player0 audio0 supportsRate 5000]
  have no: "fst (handleSpeedChange supportsRate 5000 player0) = Some NotSupportedError
      \<and> audioRef (snd (handleSpeedChange supportsRate 5000 player0)) = Some audio0"
    by simp
  from pre
    handleSpeedChange_rejects_only_unsupported [of "player0\<lparr>audioRef := None\<rparr>" audio0 supportsRate 70]
  have un: "handleSpeedChange supportsRate 70 (player0\<lparr>audioRef := None\<rparr>)
       = (None, player0\<lparr>audioRef := None\<rparr>)"
    by simp
  from pre ok no un show ?thesis by simp
qed

section \<open>The fallback chain\<close>

text \<open>
  C6, as stated, fails in its last part: a resource that is fetched and parsed is returned
  as it is, so a first resource that holds a document without segments yields that empty
  document.
\<close>

theorem loadAlignedData_counterexample:
  "emptyFetcher ''/data/processed/yana_smart_processed.json'' = Inr emptyDocument
   \<and> loadAlignedData emptyFetcher = ([], Inr emptyDocument)
   \<and> segments emptyDocument = []"
  by (simp add: loadAlignedData_def emptyFetcher_def emptyDocument_def)

text \<open>
  C6, amended. \<open>loadAlignedData\<close> follows a fallback chain of two levels and never
  rejects: it yields the first resource if that can be fetched and parsed, else the
  fallback resource if that can, else the built-in placeholder; every failure is caught.
  So the load always yields a document, and the placeholder it ends with is not empty. A
  document that was fetched is returned as fetched.
\<close>

theorem loadAlignedData_fallback_chain:
  "(\<exists>logs data. loadAlignedData f = (logs, Inr data))
   \<and> (\<forall>d. f ''/data/processed/yana_smart_processed.json'' = Inr d \<longrightarrow>
        snd (loadAlignedData f) = Inr d)
   \<and> (\<forall>e d. f ''/data/processed/yana_smart_processed.json'' = Inl e
          \<and> f ''/data/processed/yana_claude_aligned.json'' = Inr d \<longrightarrow>
        snd (loadAlignedData f) = Inr d)
   \<and> (\<forall>e e2. f ''/data/processed/yana_smart_processed.json'' = Inl e
          \<and> f ''/data/processed/yana_claude_aligned.json'' = Inl e2 \<longrightarrow>
        snd (loadAlignedData f) = Inr sampleLyricsData)
   \<and> segments sampleLyricsData \<noteq> []"
proof (intro conjI allI impI)
  show "\<exists>logs data. loadAlignedData f = (logs, Inr data)"
    by (simp add: loadAlignedData_def split: sum.split)
  show "segments sampleLyricsData \<noteq> []"
    by (simp add: sampleLyricsData_def)
next
  fix d
  assume "f ''/data/processed/yana_smart_processed.json'' = Inr d"
  then show "snd (loadAlignedData f) = Inr d"
    by (simp add: loadAlignedData_def)
next
  fix e d
  assume "f ''/data/processed/yana_smart_processed.json'' = Inl e
          \<and> f ''/data/processed/yana_claude_aligned.json'' = Inr d"
  then show "snd (loadAlignedData f) = Inr d"
    by (simp add: loadAlignedData_def)
next
  fix e e2
  assume "f ''/data/processed/yana_smart_processed.json'' = Inl e
          \<and> f ''/data/processed/yana_claude_aligned.json'' = Inl e2"
  then show "snd (loadAlignedData f) = Inr sampleLyricsData"
    by (simp add: loadAlignedData_def)
qed

theorem loadAlignedData_fallback_chain_witness:
  "failingFetcher ''/data/processed/yana_smart_processed.json'' = Inl TypeError
   \<and> failingFetcher ''/data/processed/yana_claude_aligned.json'' = Inl TypeError
   \<and> snd (loadAlignedData failingFetcher) = Inr sampleLyricsData
   \<and> fallbackFetcher ''/data/processed/yana_smart_processed.json'' = Inl SyntaxError
   \<and> fallbackFetcher ''/data/processed/yana_claude_aligned.json'' = Inr otherDocument
   \<and> snd (loadAlignedData fallbackFetcher) = Inr otherDocument
   \<and> emptyFetcher ''/data/processed/yana_smart_processed.json'' = Inr emptyDocument
   \<and> snd (loadAlignedData emptyFetcher) = Inr emptyDocument"
proof -
  have pre: "failingFetcher ''/data/processed/yana_smart_processed.json'' = Inl TypeError"
    "failingFetcher ''/data/processed/yana_claude_aligned.json'' = Inl TypeError"
    "fallbackFetcher ''/data/processed/yana_smart_processed.json'' = Inl SyntaxError"
    "fallbackFetcher ''/data/processed/yana_claude_aligned.json'' = Inr otherDocument"
    "emptyFetcher ''/data/processed/yana_smart_processed.json'' = Inr emptyDocument"
    by (simp_all add: failingFetcher_def fallbackFetcher_def emptyFetcher_def)
  from pre loadAlignedData_fallback_chain [of failingFetcher]
  have "snd (loadAlignedData failingFetcher) = Inr sampleLyricsData" by blast
  moreover from pre loadAlignedData_fallback_chain [of fallbackFetcher]
  have "snd (loadAlignedData fallbackFetcher) = Inr otherDocument" by blast
  moreover from pre loadAlignedData_fallback_chain [of emptyFetcher]
  have "snd (loadAlignedData emptyFetcher) = Inr emptyDocument" by blast
  ultimately show ?thesis using pre by simp
qed

section \<open>Syllable view\<close>

text \<open>
  C7, as stated, fails: \<open>renderSyllableView\<close> has no fallback. For a word without syllables
  it renders a \<open>span\<close> with no text in it, so the word's text is not displayed.
\<close>

theorem renderSyllableView_counterexample:
  "syllables word01 = [] \<and> text' word01 = ''Sample''
   \<and> renderSyllableView (1 / 2) True word01 = Span ''word active'' (Some 0) []
   \<and> displayedText (renderSyllableView (1 / 2) True word01) = []
   \<and> displayedText (renderKaraokeView (1 / 2) True word01) = ''Sample''"
  by (simp add: renderSyllableView_def renderKaraokeView_def isWordActive_def
      translationSuffix_def word01_def)

text \<open>
  C7, amended. For a word whose list of syllables is empty, \<open>renderSyllableView\<close> does not
  throw: it renders the word's \<open>span\<close> (with its class and its click target) holding no
  syllable, and nothing but the translation suffix when translations are shown and the word
  has one. The word's text is not part of what is displayed.
\<close>

theorem renderSyllableView_no_syllables:
  assumes "syllables w = []"
  shows "renderSyllableView t st w =
           Span (''word '' @ (if isWordActive t w then ''active'' else '''')) (Some (start w))
             (translationSuffix st w)
     \<and> displayedText (renderSyllableView t st w) =
         (if st then (case translation w of None \<Rightarrow> [] | Some tr \<Rightarrow> ''('' @ literal tr @ '')'')
          else [])"
  using assms
  by (simp add: renderSyllableView_def translationSuffix_def split: option.split)

theorem renderSyllableView_no_syllables_witness:
  "syllables wordTranslated = []
   \<and> renderSyllableView 2 True wordTranslated =
       Span ''word '' (Some 0)
         [Span ''translation'' None [TextNode ''('', TextNode ''example'', TextNode '')'']]
   \<and> displayedText (renderSyllableView 2 True wordTranslated) = ''(example)''"
proof -
  have pre: "syllables wordTranslated = []" by (simp add: wordTranslated_def)
  have vals: "\<not> isWordActive 2 wordTranslated" "start wordTranslated = 0"
    "translationSuffix True wordTranslated =
       [Span ''translation'' None [TextNode ''('', TextNode ''example'', TextNode '')'']]"
    "translation wordTranslated = Some \<lparr>literal = ''example'', contextual = None\<rparr>"
    by (simp_all add: isWordActive_def translationSuffix_def wordTranslated_def)
  from pre vals renderSyllableView_no_syllables [OF pre, of 2 True] show ?thesis by simp
qed

section \<open>Song library: what a mutation writes\<close>

text \<open>
  \<open>saveSongs\<close> writes the list it is given under the one key \<open>karaokeSongLibrary\<close> and
  touches no other key. The list that \<open>updateSong\<close> saves is computed from the songs that
  its closure captured, not from the stored library.
\<close>

lemma saveSongs_single_key:
  "localStorage (saveSongs stringify l b) =
       (localStorage b)(''karaokeSongLibrary'' \<mapsto> stringify l)
   \<and> songs (component (saveSongs stringify l b)) = l"
  by (simp add: saveSongs_def)

lemma updateSong_saves_captured:
  assumes "songId \<notin> song_id ` set (songs r)"
  shows "updateSong stringify now r songId updates b = saveSongs stringify (songs r) b"
proof -
  from assms have "\<forall>song\<in>set (songs r). song_id song \<noteq> songId" by auto
  then have "map (\<lambda>song. if song_id song = songId
      then (spread song updates)\<lparr>updatedAt := now\<rparr> else song) (songs r) = songs r"
    by (simp add: map_idI)
  then show ?thesis by (simp add: updateSong_def Let_def)
qed

text \<open>
  C9 does not hold of the code. With the songs \<open>song-1\<close> and \<open>song-2\<close> on screen and
  stored, adding the URL \<open>https://youtu.be/abc?t=1\<close> first saves the collection of three
  songs, the new record in front. The status update that follows in the same run targets
  the new record, but maps over the two songs the render captured: it writes those two
  back under the key and as the state, so the targeted record, far from receiving the
  update, is removed from the library.
\<close>

theorem updateSong_stale_snapshot:
  "songs renderValid = [song1, song2]
   \<and> songs (component browserValid) = [song1, song2]
   \<and> localStorage browserValid ''karaokeSongLibrary'' = Some ''song-1song-2''
   \<and> map song_id (songs (component (fst
        (addNewSong idsOf 1700000000000 ''2024-05-05'' renderValid browserValid))))
       = [''song-1700000000000'', ''song-1'', ''song-2'']
   \<and> localStorage (fst (addNewSong idsOf 1700000000000 ''2024-05-05'' renderValid browserValid))
        ''karaokeSongLibrary'' = Some ''song-1700000000000song-1song-2''
   \<and> map song_id (songs (component
        (addNewSong_sync idsOf 1700000000000 ''2024-05-05'' ''2024-05-05'' renderValid browserValid)))
       = [''song-1'', ''song-2'']
   \<and> songs (component
        (addNewSong_sync idsOf 1700000000000 ''2024-05-05'' ''2024-05-05'' renderValid browserValid))
       = [song1, song2]
   \<and> localStorage
        (addNewSong_sync idsOf 1700000000000 ''2024-05-05'' ''2024-05-05'' renderValid browserValid)
        ''karaokeSongLibrary'' = Some ''song-1song-2''"
proof -
  have url: "newYoutubeUrl renderValid = ''https://youtu.be/abc?t=1''"
    and snap: "songs renderValid = [song1, song2]"
    by (simp_all add: renderValid_def render0_def)
  have lib: "songs (component browserValid) = [song1, song2]"
    "localStorage browserValid ''karaokeSongLibrary'' = Some ''song-1song-2''"
    by (simp_all add: browserValid_def snap idsOf_def song1_def song2_def)
  have valid: "extractVideoId ''https://youtu.be/abc?t=1'' = Some ''abc''"
    by (simp add: matchAt_def captureAfter_def urlPatterns_def idChar_def)
  have dec: "decimal 1700000000000 = ''1700000000000''"
    by (simp add: decimal.simps)
  obtain b1 newSong where
    added: "addNewSong idsOf 1700000000000 ''2024-05-05'' renderValid browserValid = (b1, Some newSong)"
    and new_id: "song_id newSong = ''song-1700000000000''"
    and b1_songs: "songs (component b1) = newSong # [song1, song2]"
    and b1_store: "localStorage b1 ''karaokeSongLibrary'' = Some (idsOf (newSong # [song1, song2]))"
    using valid dec
    by (simp add: addNewSong_def url snap trim_def isWhiteSpace_def saveSongs_def Let_def)
  have fresh: "song_id newSong \<notin> song_id ` set (songs renderValid)"
    by (simp add: snap new_id song1_def song2_def)
  have sync: "addNewSong_sync idsOf 1700000000000 ''2024-05-05'' ''2024-05-05'' renderValid browserValid
      = saveSongs idsOf [song1, song2] b1"
    using updateSong_saves_captured [OF fresh]
    by (simp add: addNewSong_sync_def added processNewSong_first_def extractMetadata_first_def
        updateSongStatus_def snap)
  have ids: "idsOf (newSong # [song1, song2]) = ''song-1700000000000song-1song-2''"
    "idsOf [song1, song2] = ''song-1song-2''"
    by (simp_all add: idsOf_def new_id song1_def song2_def)
  have two: "map song_id [song1, song2] = [''song-1'', ''song-2'']"
    by (simp add: song1_def song2_def)
  from snap lib added new_id b1_songs b1_store sync ids two show ?thesis
    by (simp add: saveSongs_def)
qed

section \<open>Song library: rejected URLs\<close>

lemma trim_blank:
  assumes "\<forall>c\<in>set s. isWhiteSpace c"
  shows "trim s = []"
proof -
  from assms have "dropWhile isWhiteSpace s = []"
    by (simp add: dropWhile_eq_Nil_conv)
  then show ?thesis
    unfolding trim_def by (simp only: rev.simps dropWhile.simps)
qed

text \<open>
  C10. When no video id can be extracted from the URL entered (\<open>extractVideoId\<close> returns
  \<open>null\<close>), or the URL consists of white space only, \<open>addNewSong\<close> adds no record: the
  songs of the component and the stored library are what they were, and no song is handed
  to the processing pipeline.
\<close>

theorem addNewSong_rejects:
  assumes "extractVideoId (newYoutubeUrl r) = None \<or> (\<forall>c\<in>set (newYoutubeUrl r). isWhiteSpace c)"
  shows "songs (component (fst (addNewSong stringify dateNow now r b))) = songs (component b)
     \<and> localStorage (fst (addNewSong stringify dateNow now r b)) = localStorage b
     \<and> snd (addNewSong stringify dateNow now r b) = None"
proof (cases "trim (newYoutubeUrl r) = []")
  case True
  then show ?thesis by (simp add: addNewSong_def)
next
  case False
  with assms trim_blank have "extractVideoId (newYoutubeUrl r) = None" by blast
  with False show ?thesis by (simp add: addNewSong_def)
qed

theorem addNewSong_rejects_witness:
  "extractVideoId (newYoutubeUrl render0) = None
   \<and> songs (component (fst (addNewSong idsOf 1700000000000 ''2024-05-05'' render0 browser0)))
       = [song1, song2]
   \<and> localStorage (fst (addNewSong idsOf 1700000000000 ''2024-05-05'' render0 browser0)) = Map.empty
   \<and> snd (addNewSong idsOf 1700000000000 ''2024-05-05'' render0 browser0) = None
   \<and> newYoutubeUrl renderBlank = ''   ''
   \<and> songs (component (fst (addNewSong idsOf 1700000000000 ''2024-05-05'' renderBlank browser0)))
       = [song1, song2]
   \<and> snd (addNewSong idsOf 1700000000000 ''2024-05-05'' renderBlank browser0) = None
   \<and> extractVideoId (newYoutubeUrl renderValid) = Some ''abc''
   \<and> map song_id (songs (component (fst
        (addNewSong idsOf 1700000000000 ''2024-05-05'' renderValid browser0))))
       = [''song-1700000000000'', ''song-1'', ''song-2'']"
proof -
  have url: "newYoutubeUrl render0 = ''not a url''" "newYoutubeUrl renderBlank = ''   ''"
    "newYoutubeUrl renderValid = ''https://youtu.be/abc?t=1''"
    by (simp_all add: render0_def renderBlank_def renderValid_def)
  have none: "extractVideoId ''not a url'' = None"
    by (simp add: matchAt_def captureAfter_def urlPatterns_def)
  have blank: "\<forall>c\<in>set ''   ''. isWhiteSpace c"
    by (simp add: isWhiteSpace_def)
  have valid: "extractVideoId ''https://youtu.be/abc?t=1'' = Some ''abc''"
    by (simp add: matchAt_def captureAfter_def urlPatterns_def idChar_def)
  have b: "songs (component browser0) = [song1, song2]" "localStorage browser0 = Map.empty"
    by (simp_all add: browser0_def render0_def)
  have dec: "decimal 1700000000000 = ''1700000000000''"
    by (simp add: decimal.simps)
  have added: "map song_id (songs (component (fst
        (addNewSong idsOf 1700000000000 ''2024-05-05'' renderValid browser0))))
       = [''song-1700000000000'', ''song-1'', ''song-2'']"
    using valid dec
    by (simp add: addNewSong_def url trim_def isWhiteSpace_def saveSongs_def Let_def
        renderValid_def render0_def song1_def song2_def)
  from url none b addNewSong_rejects [of render0 idsOf 1700000000000 "''2024-05-05''" browser0]
  have r1: "songs (component (fst (addNewSong idsOf 1700000000000 ''2024-05-05'' render0 browser0)))
       = [song1, song2]
     \<and> localStorage (fst (addNewSong idsOf 1700000000000 ''2024-05-05'' render0 browser0)) = Map.empty
     \<and> snd (addNewSong idsOf 1700000000000 ''2024-05-05'' render0 browser0) = None"
    by simp
  from url blank b addNewSong_rejects [of renderBlank idsOf 1700000000000 "''2024-05-05''" browser0]
  have r2: "songs (component (fst (addNewSong idsOf 1700000000000 ''2024-05-05'' renderBlank browser0)))
       = [song1, song2]
     \<and> snd (addNewSong idsOf 1700000000000 ''2024-05-05'' renderBlank browser0) = None"
    by simp
  from r1 r2 url none valid added show ?thesis by simp
qed

end
